theory Spec2Isabelle
  imports Complex_Main
begin

section \<open>Values and errors\<close>

text \<open>
  The program is \<^verbatim>\<open>postprocess/process_astrom.py\<close>. Its Python floats are modelled
  as real numbers: a float argument ranges over the finite values and rounding is not
  modelled. The one place where the code makes a non-finite float out of finite ones is
  the numpy division in \<^verbatim>\<open>cd2cd\<close>, which does not raise on a zero divisor but stores
  inf or nan; an entry of a numpy array is therefore either a finite number or
  \<open>NonFinite\<close>, which stands for inf, -inf and nan alike.
\<close>

datatype npfloat = Finite real | NonFinite

text \<open>
  Every exception the modelled code can raise. \<open>BareRaise\<close> is the statement
  \<^verbatim>\<open>raise\<close> executed with no exception being handled (line 119): the interpreter
  raises TypeError under Python 2 and RuntimeError under Python 3. \<open>WcsError\<close> is
  any exception raised inside \<^verbatim>\<open>astropy.wcs\<close>.
\<close>

datatype error =
    KeyError string
  | IndexError
  | ValueError
  | ZeroDivisionError
  | TypeError
  | BareRaise
  | WcsError
  | RecursionError

definition bindE :: "error + 'a \<Rightarrow> ('a \<Rightarrow> error + 'b) \<Rightarrow> error + 'b" where
  "bindE m f = (case m of Inl e \<Rightarrow> Inl e | Inr v \<Rightarrow> f v)"

text \<open>\<^verbatim>\<open>xs[i]\<close> for a literal index \<open>i \<ge> 0\<close>: IndexError out of range.\<close>

definition idx :: "'a list \<Rightarrow> nat \<Rightarrow> error + 'a" where
  "idx xs i = (if i < length xs then Inr (xs ! i) else Inl IndexError)"

text \<open>\<^verbatim>\<open>xs[-1]\<close>.\<close>

definition idx_last :: "'a list \<Rightarrow> error + 'a" where
  "idx_last xs = (if xs = [] then Inl IndexError else Inr (last xs))"

text \<open>\<^verbatim>\<open>d[k]\<close> on a dictionary entry that may be missing: KeyError.\<close>

definition getkey :: "string \<Rightarrow> 'a option \<Rightarrow> error + 'a" where
  "getkey k v = (case v of None \<Rightarrow> Inl (KeyError k) | Some x \<Rightarrow> Inr x)"

section \<open>Strings\<close>

text \<open>\<^verbatim>\<open>s.split(c)\<close> with a one-character separator: never empty, keeps empty fields.\<close>

fun split_on :: "char \<Rightarrow> string \<Rightarrow> string list" where
  "split_on c [] = [[]]"
| "split_on c (x # xs) =
     (if x = c then [] # split_on c xs
      else (case split_on c xs of [] \<Rightarrow> [[x]] | w # ws \<Rightarrow> (x # w) # ws))"

definition is_space :: "char \<Rightarrow> bool" where
  "is_space c = (c \<in> set [CHR '' '', CHR 0x09, CHR 0x0A, CHR 0x0B, CHR 0x0C, CHR 0x0D])"

text \<open>\<^verbatim>\<open>s.strip()\<close> and \<^verbatim>\<open>s.strip(" ")\<close>.\<close>

definition strip_by :: "(char \<Rightarrow> bool) \<Rightarrow> string \<Rightarrow> string" where
  "strip_by p s = rev (dropWhile p (rev (dropWhile p s)))"

definition strip :: "string \<Rightarrow> string" where
  "strip s = strip_by is_space s"

text \<open>\<^verbatim>\<open>s.split()\<close>: the maximal runs of non-whitespace characters.\<close>

fun split_ws_acc :: "string \<Rightarrow> string \<Rightarrow> string list" where
  "split_ws_acc w [] = (if w = [] then [] else [rev w])"
| "split_ws_acc w (x # xs) =
     (if is_space x then (if w = [] then split_ws_acc [] xs else rev w # split_ws_acc [] xs)
      else split_ws_acc (x # w) xs)"

definition split_ws :: "string \<Rightarrow> string list" where
  "split_ws s = split_ws_acc [] s"

text \<open>\<^verbatim>\<open>sep.join(xs)\<close>.\<close>

fun join :: "string \<Rightarrow> string list \<Rightarrow> string" where
  "join sep [] = []"
| "join sep [x] = x"
| "join sep (x # y # ys) = x @ sep @ join sep (y # ys)"

text \<open>\<^verbatim>\<open>s.upper()\<close> on ASCII text.\<close>

definition upper_char :: "char \<Rightarrow> char" where
  "upper_char c =
     (let n = (of_char c :: nat)
      in if 97 \<le> n \<and> n \<le> 122 then char_of (n - 32) else c)"

text \<open>\<^verbatim>\<open>vkey = lambda v: str(v).upper()[0:8]\<close>, on a string.\<close>

definition vkey :: "string \<Rightarrow> string" where
  "vkey v = take 8 (map upper_char v)"

section \<open>The matrix derivation\<close>

type_synonym matrix = "npfloat list list"

text \<open>\<^verbatim>\<open>np.zeros((2, 2))\<close> and the assignment \<^verbatim>\<open>m[i, j] = v\<close>.\<close>

definition zeros22 :: matrix where
  "zeros22 = [[Finite 0, Finite 0], [Finite 0, Finite 0]]"

definition mset :: "matrix \<Rightarrow> nat \<Rightarrow> nat \<Rightarrow> npfloat \<Rightarrow> matrix" where
  "mset m i j v = m[i := (m ! i)[j := v]]"

text \<open>\<^verbatim>\<open>math.radians\<close>.\<close>

definition radians :: "real \<Rightarrow> real" where
  "radians d = d * pi / 180"

text \<open>Multiplication of two Python floats, stored into an array.\<close>

definition fmul :: "real \<Rightarrow> real \<Rightarrow> npfloat" where
  "fmul a b = Finite (a * b)"

text \<open>
  \<^verbatim>\<open>cd[i, j] / cdelt\<close>: the left operand is a numpy scalar, so a zero divisor gives
  inf or nan (and a warning), not ZeroDivisionError.
\<close>

fun np_div :: "npfloat \<Rightarrow> real \<Rightarrow> npfloat" where
  "np_div (Finite x) d = (if d = 0 then NonFinite else Finite (x / d))"
| "np_div NonFinite d = NonFinite"

text \<open>
  \<^verbatim>\<open>cd2cd(cdelt1, cdelt2, crota2, ret)\<close>. The result \<open>None\<close> is Python's
  \<^verbatim>\<open>None\<close>, returned by falling off the end of the function.
\<close>

definition cd2cd :: "real \<Rightarrow> real \<Rightarrow> real \<Rightarrow> string \<Rightarrow> matrix option" where
  "cd2cd cdelt1 cdelt2 crota2 ret =
    (let cd0 = zeros22;
         pc0 = zeros22;
         crota2r = radians crota2;
         cd1 = mset cd0 0 0 (fmul cdelt1 (cos crota2r));
         cd2 = mset cd1 0 1 (fmul cdelt1 (sin crota2r));
         cd3 = mset cd2 1 0 (fmul (- cdelt2) (sin crota2r));
         cd = mset cd3 1 1 (fmul cdelt2 (cos crota2r));
         pc1 = mset pc0 0 0 (np_div (cd ! 0 ! 0) cdelt1);
         pc2 = mset pc1 0 1 (np_div (cd ! 0 ! 1) cdelt1);
         pc3 = mset pc2 1 0 (np_div (cd ! 1 ! 0) cdelt2);
         pc = mset pc3 1 1 (np_div (cd ! 1 ! 1) cdelt2)
     in if ret = ''cd'' then Some cd
        else if ret = ''pc'' then Some pc
        else None)"

text \<open>
  The reconstruction of the direct form from the normalized form, following the
  specification's words: \<open>M[i][j] = P[i][j] * scale_i\<close>.
\<close>

fun np_mul :: "npfloat \<Rightarrow> real \<Rightarrow> npfloat" where
  "np_mul (Finite x) s = Finite (x * s)"
| "np_mul NonFinite s = NonFinite"

definition reconstruct :: "matrix \<Rightarrow> real \<Rightarrow> real \<Rightarrow> matrix" where
  "reconstruct P sx sy =
     [[np_mul (P ! 0 ! 0) sx, np_mul (P ! 0 ! 1) sx],
      [np_mul (P ! 1 ! 0) sy, np_mul (P ! 1 ! 1) sy]]"

section \<open>Numbers\<close>

text \<open>
  \<^verbatim>\<open>float(s)\<close>. The builtin is a parameter \<open>flt\<close> of the parser: any partial
  function from strings to (finite) floats, \<open>None\<close> where Python raises ValueError.
\<close>

definition pyfloat :: "(string \<Rightarrow> real option) \<Rightarrow> string \<Rightarrow> error + real" where
  "pyfloat flt s = (case flt s of None \<Rightarrow> Inl ValueError | Some v \<Rightarrow> Inr v)"

text \<open>
  A reader of signed decimal literals (\<open>56.7\<close>, \<open>-179.411\<close>, \<open>24\<close>), to run the
  parser on examples: on such a literal it returns the number written, which Python
  rounds to the nearest double.
\<close>

definition digit_val :: "char \<Rightarrow> nat option" where
  "digit_val c =
     (let n = (of_char c :: nat) in if 48 \<le> n \<and> n \<le> 57 then Some (n - 48) else None)"

fun digits_val :: "nat \<Rightarrow> string \<Rightarrow> nat option" where
  "digits_val acc [] = Some acc"
| "digits_val acc (c # cs) =
     (case digit_val c of None \<Rightarrow> None | Some d \<Rightarrow> digits_val (10 * acc + d) cs)"

definition read_unsigned :: "string \<Rightarrow> real option" where
  "read_unsigned s =
     (case split_on CHR ''.'' s of
        [i] \<Rightarrow> (if i = [] then None else map_option real (digits_val 0 i))
      | [i, f] \<Rightarrow>
          (if i = [] \<and> f = [] then None
           else (case (digits_val 0 i, digits_val 0 f) of
                   (Some a, Some b) \<Rightarrow> Some (real a + real b / 10 ^ length f)
                 | _ \<Rightarrow> None))
      | _ \<Rightarrow> None)"

definition read_decimal :: "string \<Rightarrow> real option" where
  "read_decimal s =
     (case s of
        [] \<Rightarrow> None
      | c # r \<Rightarrow>
          (if c = CHR ''-'' then map_option uminus (read_unsigned r)
           else if c = CHR ''+'' then read_unsigned r
           else read_unsigned s))"

text \<open>
  \<^verbatim>\<open>x / n\<close> for a Python float \<open>x\<close> and a Python int \<open>n\<close> (true division):
  ZeroDivisionError on \<open>n = 0\<close>.
\<close>

definition pydiv :: "real \<Rightarrow> int \<Rightarrow> error + real" where
  "pydiv x n = (if n = 0 then Inl ZeroDivisionError else Inr (x / real_of_int n))"

section \<open>The report parser\<close>

text \<open>
  The dictionary returned by \<^verbatim>\<open>parse_txt\<close>, one field per key; \<open>None\<close> is a key
  that the dictionary does not have. The key \<^verbatim>\<open>solved\<close> is always there. The values
  of \<^verbatim>\<open>bibcode\<close>, \<^verbatim>\<open>figN\<close> and \<^verbatim>\<open>page\<close> come from \<^verbatim>\<open>dict.get\<close> and are a string
  or Python's \<^verbatim>\<open>None\<close> (the inner option).
\<close>

record astrom =
  txt_solved :: bool
  txt_ra :: "real option"
  txt_dec :: "real option"
  txt_inverted :: "bool option"
  txt_bibcode :: "string option option"
  txt_figN :: "string option option"
  txt_page :: "string option option"
  txt_xs :: "real option"
  txt_ys :: "real option"
  txt_rt :: "real option"
  txt_txt :: "string list option"

text \<open>\<^verbatim>\<open>{"solved": False}\<close>.\<close>

definition unsolved :: astrom where
  "unsolved =
     \<lparr>txt_solved = False, txt_ra = None, txt_dec = None, txt_inverted = None,
      txt_bibcode = None, txt_figN = None, txt_page = None,
      txt_xs = None, txt_ys = None, txt_rt = None, txt_txt = None\<rparr>"

text \<open>
  \<^verbatim>\<open>parse_filename(f)\<close>: the fields of \<^verbatim>\<open>[bibcode]-[page]-[figN].ext\<close>.
  \<^verbatim>\<open>split\<close> never returns an empty list, so \<open>last\<close> and \<open>hd\<close> are applied to
  non-empty lists only.
\<close>

definition parse_filename :: "string \<Rightarrow> (string \<rightharpoonup> string)" where
  "parse_filename f =
     (let values = split_on CHR ''-'' f;
          values' = butlast values @ [hd (split_on CHR ''.'' (last values))]
      in map_of (zip [''bibcode'', ''page'', ''figN''] values'))"

text \<open>The unit table \<^verbatim>\<open>u\<close>: units per degree.\<close>

definition u :: "(string \<times> real) list" where
  "u = [(''arcseconds'', 3600), (''arcminutes'', 60), (''degrees'', 1)]"

text \<open>
  \<^verbatim>\<open>parse_txt(t)\<close>, on the lines that \<^verbatim>\<open>f.readlines()\<close> returns for the file
  \<open>t\<close>. The steps are in the order of the source, so the first failing step decides
  the exception.
\<close>

definition parse_txt :: "(string \<Rightarrow> real option) \<Rightarrow> string list \<Rightarrow> error + astrom" where
  "parse_txt flt lines =
    (let data = map strip lines in
     if length data = 3 then Inr unsolved
     else
      bindE (idx data 0) (\<lambda>l0.
      bindE (idx_last (split_on CHR '' '' l0)) (\<lambda>fname.
      let pf = parse_filename fname;
          bibcode = pf ''bibcode''; figN = pf ''figN''; page = pf ''page'' in
      bindE (idx data 1) (\<lambda>l1.
      bindE (idx (split_on CHR '' '' l1) 0) (\<lambda>t1.
      let inverted = (drop 1 t1 = ''inverted'') in
      bindE (idx data 2) (\<lambda>l2.
      bindE (idx (split_on CHR '' '' l2) 0) (\<lambda>a.
      bindE (pyfloat flt (butlast (drop 1 a))) (\<lambda>ra.
      bindE (idx (split_on CHR '' '' l2) 1) (\<lambda>b.
      bindE (pyfloat flt (butlast b)) (\<lambda>dec.
      bindE (idx data 3) (\<lambda>l3.
      bindE (idx (split_on CHR '' '' l3) 0) (\<lambda>w.
      bindE (pyfloat flt w) (\<lambda>xs.
      bindE (idx (split_on CHR '' '' l3) 2) (\<lambda>h.
      bindE (pyfloat flt h) (\<lambda>ys.
      bindE (idx (split_on CHR '' '' l3) 3) (\<lambda>us.
      (case map_of u us of
         None \<Rightarrow> Inl BareRaise
       | Some per \<Rightarrow>
          let xs' = xs / per; ys' = ys / per in
          bindE (idx data 4) (\<lambda>l4.
          bindE (idx (split_on CHR '' '' l4) 5) (\<lambda>r.
          bindE (pyfloat flt r) (\<lambda>rt.
          Inr \<lparr>txt_solved = True, txt_ra = Some ra, txt_dec = Some dec,
               txt_inverted = Some inverted,
               txt_bibcode = Some bibcode, txt_figN = Some figN, txt_page = Some page,
               txt_xs = Some xs', txt_ys = Some ys', txt_rt = Some rt,
               txt_txt = Some data\<rparr>))))))))))))))))))))"

section \<open>The header builder\<close>

text \<open>
  The dictionary returned by \<^verbatim>\<open>parse_img\<close>, restricted to the two entries the
  builder reads; \<^verbatim>\<open>parse_img\<close> returns \<^verbatim>\<open>{}\<close> when the image cannot be opened.
\<close>

record image =
  img_xs :: "int option"
  img_ys :: "int option"

text \<open>The attributes of \<^verbatim>\<open>w.wcs\<close> that the builder assigns.\<close>

record wcsprm =
  wcs_ctype :: "string list"
  wcs_cunit :: "string list"
  wcs_crpix :: "real list"
  wcs_crval :: "real list"
  wcs_pc :: matrix
  wcs_cdelt :: "real list"

text \<open>The value of a header card: a string, Python's \<^verbatim>\<open>None\<close> or a float.\<close>

datatype cardval = CStr string | CNone | CFloat real

definition str_or_none :: "string option \<Rightarrow> cardval" where
  "str_or_none v = (case v of None \<Rightarrow> CNone | Some s \<Rightarrow> CStr s)"

text \<open>
  The header: the WCS attributes it is generated from, the keyed cards written by
  \<^verbatim>\<open>hdr[key] = (value, comment)\<close> and the COMMENT cards in the order they are
  appended.
\<close>

record header =
  hdr_wcs :: wcsprm
  hdr_cards :: "string \<rightharpoonup> (cardval \<times> string)"
  hdr_comments :: "string list"

text \<open>
  \<^verbatim>\<open>w.to_header()\<close> is astropy's, and raises when the library behind it refuses the
  attributes (a matrix that is singular or holds nan, a reference latitude beyond the
  poles, ...). That check is not part of this program: it is the parameter \<open>wcs_ok\<close>
  of the builder, and every statement about the builder holds for every such check.
\<close>

definition to_header :: "(wcsprm \<Rightarrow> bool) \<Rightarrow> wcsprm \<Rightarrow> error + header" where
  "to_header wcs_ok w =
     (if wcs_ok w then Inr \<lparr>hdr_wcs = w, hdr_cards = Map.empty, hdr_comments = []\<rparr>
      else Inl WcsError)"

text \<open>
  A header accepts a text only if all its characters are printable ASCII (codes 32 to
  126); the assignment of any other text to a card raises ValueError.
\<close>

definition printable :: "string \<Rightarrow> bool" where
  "printable s = list_all (\<lambda>c. 32 \<le> (of_char c :: nat) \<and> (of_char c :: nat) \<le> 126) s"

fun cardval_ok :: "cardval \<Rightarrow> bool" where
  "cardval_ok (CStr s) = printable s"
| "cardval_ok CNone = True"
| "cardval_ok (CFloat x) = True"

text \<open>\<^verbatim>\<open>hdr[k] = (value, comment)\<close>.\<close>

definition set_card :: "header \<Rightarrow> string \<Rightarrow> cardval \<times> string \<Rightarrow> error + header" where
  "set_card hdr k v =
     (if cardval_ok (fst v) \<and> printable (snd v)
      then Inr (hdr\<lparr>hdr_cards := (hdr_cards hdr)(k \<mapsto> v)\<rparr>)
      else Inl ValueError)"

text \<open>\<^verbatim>\<open>hdr['COMMENT'] = c\<close>.\<close>

definition add_comment :: "header \<Rightarrow> string \<Rightarrow> error + header" where
  "add_comment hdr c =
     (if printable c then Inr (hdr\<lparr>hdr_comments := hdr_comments hdr @ [c]\<rparr>)
      else Inl ValueError)"

text \<open>The module constant \<^verbatim>\<open>s\<close>.\<close>

definition s_name :: string where
  "s_name = ''process_astrom.py''"

text \<open>
  \<^verbatim>\<open>lsp(l, s, p)\<close>: \<open>l\<close> in pieces of \<open>s\<close> characters, appended to \<open>p\<close>. With
  \<open>s = 0\<close> and a non-empty \<open>l\<close> the Python recursion never ends and the interpreter
  raises its recursion error.
\<close>

function lsp :: "string \<Rightarrow> nat \<Rightarrow> string list \<Rightarrow> error + string list" where
  "lsp l s p =
     (if length l \<le> s then Inr (p @ [l])
      else if s = 0 then Inl RecursionError
      else lsp (drop s l) s (p @ [take s l]))"
  by pat_completeness auto
termination
  by (relation "measure (\<lambda>(l, s, p). length l)") auto

declare lsp.simps [simp del]

text \<open>
  The clock: the value of \<^verbatim>\<open>datetime.datetime.today()\<close>. Its text is
  \<^verbatim>\<open>YYYY-MM-DD HH:MM:SS.ffffff\<close>, without the fraction when the microseconds are
  zero. \<open>pad k n\<close> writes the last \<open>k\<close> decimal digits of \<open>n\<close>; the fields of a
  datetime are within their ranges (the year at most 9999), so no digit is lost.
\<close>

record datetime =
  dt_year :: nat
  dt_month :: nat
  dt_day :: nat
  dt_hour :: nat
  dt_minute :: nat
  dt_second :: nat
  dt_microsecond :: nat

fun pad :: "nat \<Rightarrow> nat \<Rightarrow> string" where
  "pad 0 n = []"
| "pad (Suc k) n = pad k (n div 10) @ [''0123456789'' ! (n mod 10)]"

definition str_datetime :: "datetime \<Rightarrow> string" where
  "str_datetime d =
     pad 4 (dt_year d) @ ''-'' @ pad 2 (dt_month d) @ ''-'' @ pad 2 (dt_day d) @ '' ''
     @ pad 2 (dt_hour d) @ '':'' @ pad 2 (dt_minute d) @ '':'' @ pad 2 (dt_second d)
     @ (if dt_microsecond d = 0 then [] else ''.'' @ pad 6 (dt_microsecond d))"

text \<open>\<^verbatim>\<open>fits2day()\<close>, at the time \<open>today\<close>.\<close>

definition fits2day :: "datetime \<Rightarrow> string" where
  "fits2day today =
     (let tr = 19;
          a = strip_by (\<lambda>c. c = CHR '' '') (str_datetime today)
      in take tr (join ''T'' (split_ws a)))"

text \<open>
  \<^verbatim>\<open>document(hdr, docs)\<close>. The cards are keyed and the keys of \<open>docs\<close> are distinct,
  and every refused card raises the same exception, so the order in which the
  dictionary is walked does not show in the result.
\<close>

fun document_loop :: "header \<Rightarrow> (string \<times> cardval \<times> string) list \<Rightarrow> error + header" where
  "document_loop hdr [] = Inr hdr"
| "document_loop hdr ((k, v) # rest) =
     bindE (set_card hdr (vkey k) v) (\<lambda>hdr'. document_loop hdr' rest)"

definition document ::
  "datetime \<Rightarrow> header \<Rightarrow> (string \<times> cardval \<times> string) list \<Rightarrow> error + header" where
  "document today hdr docs =
     (let docs' = (if ''DATE'' \<notin> set (map fst docs)
                   then docs @ [(''DATE'', (CStr (fits2day today), ''Creation date (apx)''))]
                   else docs)
      in document_loop hdr docs')"

text \<open>
  \<^verbatim>\<open>comments(hdr, stuff)\<close>. A value of \<open>stuff\<close> is a string or a list of lines; the
  dictionary is walked in insertion order.
\<close>

datatype stuffval = SStr string | SLines "string list"

fun comment_pieces :: "header \<Rightarrow> string \<Rightarrow> nat \<Rightarrow> string list \<Rightarrow> error + header" where
  "comment_pieces hdr t i [] = Inr hdr"
| "comment_pieces hdr t i (lll # rest) =
     bindE (add_comment hdr (''|'' @ concat (replicate (i + 1) t) @ '' '' @ lll))
       (\<lambda>hdr'. comment_pieces hdr' t (i + 1) rest)"

fun comment_lines :: "header \<Rightarrow> string \<Rightarrow> nat \<Rightarrow> string list \<Rightarrow> error + header" where
  "comment_lines hdr t nt [] = Inr hdr"
| "comment_lines hdr t nt (l # ls) =
     bindE (lsp l nt []) (\<lambda>ll.
     bindE (comment_pieces hdr t 0 ll) (\<lambda>hdr'. comment_lines hdr' t nt ls))"

fun comment_items :: "header \<Rightarrow> (string \<times> stuffval) list \<Rightarrow> error + header" where
  "comment_items hdr [] = Inr hdr"
| "comment_items hdr ((k, SStr v) # rest) =
     bindE (add_comment hdr (k @ '' '' @ v)) (\<lambda>hdr'. comment_items hdr' rest)"
| "comment_items hdr ((k, SLines v) # rest) =
     (let t = ''  ''; nt = 80 - 10 * length t in
      bindE (add_comment hdr k) (\<lambda>hdr'.
      bindE (comment_lines hdr' t nt v) (\<lambda>hdr''. comment_items hdr'' rest)))"

definition comments :: "header \<Rightarrow> (string \<times> stuffval) list \<Rightarrow> error + header" where
  "comments hdr stuff =
     bindE (add_comment hdr (replicate 70 CHR ''-'')) (\<lambda>hdr'.
     let stuff' = (if ''Written by'' \<notin> set (map fst stuff)
                   then stuff @ [(''Written by'', SStr s_name)] else stuff)
     in comment_items hdr' stuff')"

text \<open>\<^verbatim>\<open>ldpix = lambda x: math.floor(x / 2)\<close>, with true division.\<close>

definition ldpix :: "int \<Rightarrow> real" where
  "ldpix x = of_int \<lfloor>real_of_int x / 2\<rfloor>"

text \<open>
  \<^verbatim>\<open>build_hdr(img, txt)\<close>; \<open>wcs_ok\<close> is the library's check in
  \<^verbatim>\<open>w.to_header()\<close> and \<open>today\<close> the clock that \<^verbatim>\<open>document\<close> reads through
  \<^verbatim>\<open>fits2day\<close>. The dictionary lookups, the divisions and the calls are in the
  order of the source; the assignments to \<^verbatim>\<open>w.wcs\<close> store lists of floats and do
  not raise. The builder never reads \<^verbatim>\<open>txt['solved']\<close>.
\<close>

definition build_hdr ::
  "(wcsprm \<Rightarrow> bool) \<Rightarrow> datetime \<Rightarrow> image \<Rightarrow> astrom \<Rightarrow> error + header" where
  "build_hdr wcs_ok today img txt =
     bindE (getkey ''xs'' (img_xs img)) (\<lambda>ixs.
     bindE (getkey ''ys'' (img_ys img)) (\<lambda>iys.
     let crpix = map ldpix [ixs, iys] in
     bindE (getkey ''ra'' (txt_ra txt)) (\<lambda>ra.
     bindE (getkey ''dec'' (txt_dec txt)) (\<lambda>dec.
     let crval = [ra, dec] in
     bindE (getkey ''xs'' (txt_xs txt)) (\<lambda>fxs.
     bindE (pydiv fxs ixs) (\<lambda>cdelt1.
     bindE (getkey ''ys'' (txt_ys txt)) (\<lambda>fys.
     bindE (pydiv fys iys) (\<lambda>cdelt2.
     bindE (getkey ''rt'' (txt_rt txt)) (\<lambda>crota2.
     (case cd2cd cdelt1 cdelt2 crota2 ''pc'' of
        None \<Rightarrow> Inl TypeError
      | Some pcm \<Rightarrow>
         let w = \<lparr>wcs_ctype = [''RA---TAN'', ''DEC--TAN''], wcs_cunit = [''deg'', ''deg''],
                  wcs_crpix = crpix, wcs_crval = crval, wcs_pc = pcm,
                  wcs_cdelt = [cdelt1, cdelt2]\<rparr> in
         bindE (to_header wcs_ok w) (\<lambda>hdr.
         bindE (getkey ''bibcode'' (txt_bibcode txt)) (\<lambda>bibcode.
         bindE (getkey ''figN'' (txt_figN txt)) (\<lambda>figN.
         bindE (getkey ''page'' (txt_page txt)) (\<lambda>page.
         bindE (getkey ''rt'' (txt_rt txt)) (\<lambda>rt.
         let docs = [(''REFERENC'', (str_or_none bibcode, ''ADS Bibcode'')),
                     (''REF_FIGN'', (str_or_none figN, ''Figure Number'')),
                     (''REF_PAGE'', (str_or_none page, ''Page Number'')),
                     (''CROTAX'', (CFloat rt, ''CROTA2 (hidden)''))] in
         bindE (document today hdr docs) (\<lambda>hdr'.
         bindE (getkey ''txt'' (txt_txt txt)) (\<lambda>lines.
         comments hdr' [(''Original Header'', SLines lines)])))))))))))))))))"

text \<open>
  Line 320 of \<^verbatim>\<open>run\<close>: \<^verbatim>\<open>hdr = txt['solved'] and build_hdr(img, txt) or None\<close>.
  A header is never empty, hence true.
\<close>

definition run_hdr ::
  "(wcsprm \<Rightarrow> bool) \<Rightarrow> datetime \<Rightarrow> image \<Rightarrow> astrom \<Rightarrow> error + header option" where
  "run_hdr wcs_ok today img txt =
     (if txt_solved txt then bindE (build_hdr wcs_ok today img txt) (\<lambda>hdr. Inr (Some hdr))
      else Inr None)"

text \<open>A header without its \<^verbatim>\<open>DATE\<close> card.\<close>

definition undate :: "header \<Rightarrow> header" where
  "undate hdr = hdr\<lparr>hdr_cards := (hdr_cards hdr)(''DATE'' := None)\<rparr>"

section \<open>Examples\<close>

text \<open>The report in the documentation of \<^verbatim>\<open>parse_txt\<close>, and an image of 1000 x 800 pixels.\<close>

definition example_report :: "string list" where
  "example_report =
     [''testing image: 2010Ciel...72..113N-002-002.ppm'',
      ''#non-inverted image solved without SIMBAD coordinates in 613.357455015 seconds'',
      ''(56.7, 24.15)'',
      ''81.4539 x 59.1175 arcminutes'',
      ''Field rotation angle: up is -179.411 degrees E of N'']"

definition example_image :: image where
  "example_image = \<lparr>img_xs = Some 1000, img_ys = Some 800\<rparr>"

text \<open>The record that \<^verbatim>\<open>parse_txt\<close> returns for the example report.\<close>

definition example_record :: astrom where
  "example_record =
     \<lparr>txt_solved = True, txt_ra = Some (567 / 10), txt_dec = Some (483 / 20),
      txt_inverted = Some False,
      txt_bibcode = Some (Some ''2010Ciel...72..113N''),
      txt_figN = Some (Some ''002''), txt_page = Some (Some ''002''),
      txt_xs = Some (814539 / 10000 / 60), txt_ys = Some (591175 / 10000 / 60),
      txt_rt = Some (- (179411 / 1000)),
      txt_txt = Some example_report\<rparr>"

text \<open>The example report with two spaces before the unit.\<close>

definition double_space_report :: "string list" where
  "double_space_report =
     [''testing image: 2010Ciel...72..113N-002-002.ppm'',
      ''#non-inverted image solved without SIMBAD coordinates in 613.357455015 seconds'',
      ''(56.7, 24.15)'',
      ''81.4539 x 59.1175  arcminutes'',
      ''Field rotation angle: up is -179.411 degrees E of N'']"

text \<open>The example report with an unknown unit, and with an unreadable right ascension as well.\<close>

definition parsec_report :: "string list" where
  "parsec_report =
     [''testing image: 2010Ciel...72..113N-002-002.ppm'',
      ''#non-inverted image solved without SIMBAD coordinates in 613.357455015 seconds'',
      ''(56.7, 24.15)'',
      ''81.4539 x 59.1175 parsecs'',
      ''Field rotation angle: up is -179.411 degrees E of N'']"

definition malformed_report :: "string list" where
  "malformed_report =
     [''testing image: 2010Ciel...72..113N-002-002.ppm'',
      ''#non-inverted image solved without SIMBAD coordinates in 613.357455015 seconds'',
      ''(abc, 24.15)'',
      ''81.4539 x 59.1175 parsecs'',
      ''Field rotation angle: up is -179.411 degrees E of N'']"

text \<open>The example record with \<^verbatim>\<open>solved\<close> set to false and every other key kept.\<close>

definition unsolved_full :: astrom where
  "unsolved_full = example_record\<lparr>txt_solved := False\<rparr>"

text \<open>Two moments of the same second, and the same time a day later.\<close>

definition example_clock :: datetime where
  "example_clock =
     \<lparr>dt_year = 2013, dt_month = 11, dt_day = 4, dt_hour = 12, dt_minute = 34,
      dt_second = 56, dt_microsecond = 789012\<rparr>"

definition example_clock_later :: datetime where
  "example_clock_later = example_clock\<lparr>dt_microsecond := 999999\<rparr>"

definition example_clock_next_day :: datetime where
  "example_clock_next_day = example_clock\<lparr>dt_day := 5\<rparr>"

text \<open>
  A check of the attributes to run the builder on the examples: it refuses a matrix
  with an entry that is not finite, a zero scale and a reference latitude beyond 90
  degrees, which the library is seen to refuse, and accepts the rest.
\<close>

definition wcs_valid :: "wcsprm \<Rightarrow> bool" where
  "wcs_valid w =
     (list_all (list_all (\<lambda>x. x \<noteq> NonFinite)) (wcs_pc w)
      \<and> list_all (\<lambda>x. x \<noteq> 0) (wcs_cdelt w)
      \<and> (case wcs_crval w of [ra, dec] \<Rightarrow> - 90 \<le> dec \<and> dec \<le> 90 | _ \<Rightarrow> False))"

section \<open>Basic facts\<close>

lemma bindE_Inr [simp]: "bindE (Inr v) f = f v"
  by (simp add: bindE_def)

lemma bindE_Inl [simp]: "bindE (Inl e) f = Inl e"
  by (simp add: bindE_def)

lemma idx_in_range: "i < length xs \<Longrightarrow> idx xs i = Inr (xs ! i)"
  by (simp add: idx_def)

lemma split_on_nonempty: "split_on c s \<noteq> []"
  by (induction s) (auto split: list.splits)

lemma idx_last_split_on: "idx_last (split_on c s) = Inr (last (split_on c s))"
  by (simp add: idx_last_def split_on_nonempty)

lemma idx_split_on_0: "idx (split_on c s) 0 = Inr (split_on c s ! 0)"
  using split_on_nonempty [of c s] by (simp add: idx_def)

lemma cd2cd_cd:
  "cd2cd sx sy th ''cd'' =
     Some [[Finite (sx * cos (radians th)), Finite (sx * sin (radians th))],
           [Finite (- sy * sin (radians th)), Finite (sy * cos (radians th))]]"
  by (simp add: cd2cd_def zeros22_def mset_def fmul_def Let_def)

lemma cd2cd_pc:
  "cd2cd sx sy th ''pc'' =
     Some [[np_div (Finite (sx * cos (radians th))) sx, np_div (Finite (sx * sin (radians th))) sx],
           [np_div (Finite (- sy * sin (radians th))) sy, np_div (Finite (sy * cos (radians th))) sy]]"
  by (simp add: cd2cd_def zeros22_def mset_def fmul_def Let_def del: np_div.simps)

lemma parse_txt_valid:
  assumes len: "length lines = 5"
    and t2: "split_on CHR '' '' (strip (lines ! 2)) = a # b # rest"
    and ra: "flt (butlast (drop 1 a)) = Some ra"
    and dec: "flt (butlast b) = Some dec"
    and t3: "toks = split_on CHR '' '' (strip (lines ! 3))" "3 < length toks"
    and w: "flt (toks ! 0) = Some width"
    and h: "flt (toks ! 2) = Some height"
    and us: "map_of u (toks ! 3) = Some per"
    and t4: "5 < length (split_on CHR '' '' (strip (lines ! 4)))"
    and rt: "flt (split_on CHR '' '' (strip (lines ! 4)) ! 5) = Some rot"
  shows "parse_txt flt lines =
     (let pf = parse_filename (last (split_on CHR '' '' (strip (lines ! 0)))) in
      Inr \<lparr>txt_solved = True, txt_ra = Some ra, txt_dec = Some dec,
           txt_inverted = Some (drop 1 (split_on CHR '' '' (strip (lines ! 1)) ! 0) = ''inverted''),
           txt_bibcode = Some (pf ''bibcode''), txt_figN = Some (pf ''figN''),
           txt_page = Some (pf ''page''),
           txt_xs = Some (width / per), txt_ys = Some (height / per), txt_rt = Some rot,
           txt_txt = Some (map strip lines)\<rparr>)"
  using assms
  by (simp add: parse_txt_def idx_in_range idx_last_split_on idx_split_on_0 pyfloat_def
      Let_def del: split_on.simps)

lemma parse_txt_Inr_unit:
  assumes "parse_txt flt lines = Inr r" and "length lines \<noteq> 3"
  shows "\<exists>us. idx (split_on CHR '' '' (strip (lines ! 3))) 3 = Inr us \<and> map_of u us \<noteq> None"
  using assms
  apply (simp add: parse_txt_def Let_def del: split_on.simps)
  apply (auto simp: bindE_def idx_def split: sum.splits option.splits if_splits simp del: split_on.simps)
  done

lemma map_sum_bindE:
  "map_sum id g (bindE m f) = bindE m (\<lambda>v. map_sum id g (f v))"
  by (cases m) simp_all

lemma printable_Nil [simp]: "printable []"
  by (simp add: printable_def)

lemma printable_append [simp]: "printable (a @ b) = (printable a \<and> printable b)"
  by (simp add: printable_def)

lemma printable_subset: "printable s \<Longrightarrow> set r \<subseteq> set s \<Longrightarrow> printable r"
  by (auto simp: printable_def list_all_iff)

lemma printable_take: "printable s \<Longrightarrow> printable (take n s)"
  by (erule printable_subset) (rule set_take_subset)

lemma printable_drop: "printable s \<Longrightarrow> printable (drop n s)"
  by (erule printable_subset) (rule set_drop_subset)

lemma printable_strip_by: "printable s \<Longrightarrow> printable (strip_by p s)"
proof (erule printable_subset)
  show "set (strip_by p s) \<subseteq> set s"
    by (auto simp: strip_by_def dest!: set_dropWhileD)
qed

lemma printable_digit: "printable [''0123456789'' ! (n mod 10)]"
proof -
  have "''0123456789'' ! (n mod 10) \<in> set ''0123456789''"
    by (rule nth_mem) simp
  then show ?thesis by (auto simp: printable_def)
qed

lemma printable_pad: "printable (pad k n)"
  by (induction k arbitrary: n) (simp_all add: printable_digit)

lemma printable_str_datetime: "printable (str_datetime d)"
proof -
  show ?thesis
    by (simp add: str_datetime_def printable_def printable_pad [unfolded printable_def])
qed

lemma printable_split_ws_acc:
  "printable w \<Longrightarrow> printable s \<Longrightarrow> list_all printable (split_ws_acc w s)"
proof (induction w s rule: split_ws_acc.induct)
  case (1 w)
  then show ?case by (auto intro: printable_subset)
next
  case (2 w x xs)
  from "2.prems" have x: "printable [x]" and xs: "printable xs"
    by (simp_all add: printable_def)
  have rw: "printable (rev w)" using "2.prems"(1) by (auto intro: printable_subset)
  have xw: "printable (x # w)" using x "2.prems"(1) by (simp add: printable_def)
  show ?case using 2 xs rw xw by auto
qed

lemma printable_split_ws: "printable s \<Longrightarrow> list_all printable (split_ws s)"
  by (simp add: split_ws_def printable_split_ws_acc)

lemma printable_join:
  "printable sep \<Longrightarrow> list_all printable xs \<Longrightarrow> printable (join sep xs)"
  by (induction sep xs rule: join.induct) simp_all

lemma printable_fits2day: "printable (fits2day d)"
proof -
  have "printable ''T''" by (simp add: printable_def)
  then show ?thesis
    by (simp add: fits2day_def Let_def printable_take printable_join printable_split_ws
        printable_strip_by printable_str_datetime)
qed

lemma lsp_pieces:
  "0 < s \<Longrightarrow> printable l \<Longrightarrow> list_all printable p
     \<Longrightarrow> \<exists>r. lsp l s p = Inr r \<and> list_all printable r"
proof (induction l s p rule: lsp.induct)
  case (1 l s p)
  show ?case
  proof (cases "length l \<le> s")
    case True
    with 1 show ?thesis by (simp add: lsp.simps)
  next
    case False
    with 1 have "\<exists>r. lsp (drop s l) s (p @ [take s l]) = Inr r \<and> list_all printable r"
      by (simp add: printable_take printable_drop)
    with False 1 show ?thesis by (subst lsp.simps) simp
  qed
qed

lemma add_comment_cards:
  "add_comment (hdr_cards_update f h) c = map_sum id (hdr_cards_update f) (add_comment h c)"
  by (simp add: add_comment_def)

lemma comment_pieces_cards:
  "comment_pieces (hdr_cards_update f h) t i ls
     = map_sum id (hdr_cards_update f) (comment_pieces h t i ls)"
proof (induction ls arbitrary: h i)
  case Nil
  show ?case by simp
next
  case (Cons l ls)
  show ?case
    by (cases "add_comment h (''|'' @ concat (replicate (i + 1) t) @ '' '' @ l)")
      (simp_all add: add_comment_cards Cons.IH)
qed

lemma comment_lines_cards:
  "comment_lines (hdr_cards_update f h) t nt ls
     = map_sum id (hdr_cards_update f) (comment_lines h t nt ls)"
proof (induction ls arbitrary: h)
  case Nil
  show ?case by simp
next
  case (Cons l ls)
  show ?case
  proof (cases "lsp l nt []")
    case (Inl e)
    then show ?thesis by simp
  next
    case (Inr ll)
    then show ?thesis
      by (cases "comment_pieces h t 0 ll") (simp_all add: comment_pieces_cards Cons.IH)
  qed
qed

lemma comment_items_cards:
  "comment_items (hdr_cards_update f h) stuff
     = map_sum id (hdr_cards_update f) (comment_items h stuff)"
proof (induction h stuff rule: comment_items.induct)
  case (1 hdr)
  show ?case by simp
next
  case (2 hdr k v rest)
  then show ?case
    by (cases "add_comment hdr (k @ '' '' @ v)") (simp_all add: add_comment_cards)
next
  case (3 hdr k v rest)
  show ?case
  proof (cases "add_comment hdr k")
    case (Inl e)
    then show ?thesis by (simp add: add_comment_cards)
  next
    case a: (Inr h1)
    show ?thesis
    proof (cases "comment_lines h1 ''  '' 60 v")
      case (Inl e)
      then show ?thesis using a by (simp add: add_comment_cards comment_lines_cards)
    next
      case (Inr h2)
      then show ?thesis using a 3 [OF refl refl, of h2]
        by (simp add: add_comment_cards comment_lines_cards)
    qed
  qed
qed

lemma comments_cards:
  "comments (hdr_cards_update f h) stuff = map_sum id (hdr_cards_update f) (comments h stuff)"
  by (cases "add_comment h (replicate 70 CHR ''-'')")
    (simp_all add: comments_def Let_def add_comment_cards comment_items_cards)

lemma add_comment_keeps:
  "add_comment h c = Inr h' \<Longrightarrow> hdr_wcs h' = hdr_wcs h \<and> hdr_cards h' = hdr_cards h"
  by (auto simp: add_comment_def split: if_splits)

lemma comment_pieces_keeps:
  "comment_pieces h t i ls = Inr h' \<Longrightarrow> hdr_wcs h' = hdr_wcs h \<and> hdr_cards h' = hdr_cards h"
proof (induction ls arbitrary: h i)
  case Nil
  then show ?case by simp
next
  case (Cons l ls)
  then show ?case
    by (cases "add_comment h (''|'' @ concat (replicate (i + 1) t) @ '' '' @ l)")
      (auto dest: add_comment_keeps)
qed

lemma comment_lines_keeps:
  "comment_lines h t nt ls = Inr h' \<Longrightarrow> hdr_wcs h' = hdr_wcs h \<and> hdr_cards h' = hdr_cards h"
proof (induction ls arbitrary: h)
  case Nil
  then show ?case by simp
next
  case (Cons l ls)
  show ?case
  proof (cases "lsp l nt []")
    case (Inl e)
    with Cons.prems show ?thesis by simp
  next
    case ll: (Inr ll)
    show ?thesis
    proof (cases "comment_pieces h t 0 ll")
      case (Inl e)
      with ll Cons.prems show ?thesis by simp
    next
      case (Inr h1)
      with ll Cons.prems have "comment_lines h1 t nt ls = Inr h'" by simp
      from Cons.IH [OF this] comment_pieces_keeps [OF Inr] show ?thesis by simp
    qed
  qed
qed

lemma comment_items_keeps:
  "comment_items h stuff = Inr h' \<Longrightarrow> hdr_wcs h' = hdr_wcs h \<and> hdr_cards h' = hdr_cards h"
proof (induction h stuff rule: comment_items.induct)
  case (1 hdr)
  then show ?case by simp
next
  case (2 hdr k v rest)
  then show ?case
    by (cases "add_comment hdr (k @ '' '' @ v)") (auto dest: add_comment_keeps)
next
  case (3 hdr k v rest)
  show ?case
  proof (cases "add_comment hdr k")
    case (Inl e)
    with "3.prems" show ?thesis by simp
  next
    case a: (Inr h1)
    show ?thesis
    proof (cases "comment_lines h1 ''  '' 60 v")
      case (Inl e)
      with a "3.prems" show ?thesis by simp
    next
      case (Inr h2)
      with a "3.prems" have r: "comment_items h2 rest = Inr h'" by simp
      have "hdr_wcs h' = hdr_wcs h2 \<and> hdr_cards h' = hdr_cards h2"
        using "3.IH" [OF refl refl r] by simp
      with add_comment_keeps [OF a] comment_lines_keeps [OF Inr]
      show ?thesis by simp
    qed
  qed
qed

lemma comments_keeps:
  assumes "comments h stuff = Inr h'"
  shows "hdr_wcs h' = hdr_wcs h \<and> hdr_cards h' = hdr_cards h"
proof (cases "add_comment h (replicate 70 CHR ''-'')")
  case (Inl e)
  with assms show ?thesis by (simp add: comments_def)
next
  case (Inr h0)
  with assms obtain stuff' where "comment_items h0 stuff' = Inr h'"
    by (simp add: comments_def Let_def)
  from comment_items_keeps [OF this] add_comment_keeps [OF Inr] show ?thesis by simp
qed

lemma set_card_wcs: "set_card h k v = Inr h' \<Longrightarrow> hdr_wcs h' = hdr_wcs h"
  by (auto simp: set_card_def split: if_splits)

lemma document_loop_wcs: "document_loop h docs = Inr h' \<Longrightarrow> hdr_wcs h' = hdr_wcs h"
proof (induction h docs rule: document_loop.induct)
  case (1 hdr)
  then show ?case by simp
next
  case (2 hdr k v rest)
  then show ?case
    by (cases "set_card hdr (vkey k) v") (auto dest: set_card_wcs)
qed

lemma document_wcs: "document t h docs = Inr h' \<Longrightarrow> hdr_wcs h' = hdr_wcs h"
  by (auto simp: document_def Let_def dest: document_loop_wcs split: if_splits)

lemma document_loop_append:
  "document_loop h (xs @ ys) = bindE (document_loop h xs) (\<lambda>h'. document_loop h' ys)"
proof (induction h xs rule: document_loop.induct)
  case (1 hdr)
  show ?case by simp
next
  case (2 hdr k v rest)
  then show ?case by (cases "set_card hdr (vkey k) v") simp_all
qed

lemma vkey_DATE: "vkey ''DATE'' = ''DATE''"
  by (simp add: vkey_def upper_char_def)

lemma document_bind:
  assumes "''DATE'' \<notin> set (map fst docs)"
  shows "bindE (document d hdr docs) f =
     bindE (document_loop hdr docs)
       (\<lambda>h. f (h\<lparr>hdr_cards := (hdr_cards h)(''DATE'' \<mapsto>
                     (CStr (fits2day d), ''Creation date (apx)''))\<rparr>))"
proof -
  have c: "printable ''Creation date (apx)''" by (simp add: printable_def)
  show ?thesis
    using assms
    by (cases "document_loop hdr docs")
      (simp_all add: document_def document_loop_append set_card_def vkey_DATE
        printable_fits2day c)
qed

lemma comments_ok:
  assumes "list_all printable ls"
  shows "\<exists>h'. comments h [(''Original Header'', SLines ls)] = Inr h'
      \<and> hdr_wcs h' = hdr_wcs h \<and> hdr_cards h' = hdr_cards h"
proof -
  have pieces: "\<exists>h'. comment_pieces h t i ps = Inr h'" if "printable t" "list_all printable ps"
    for h t i ps
    using that
  proof (induction ps arbitrary: h i)
    case Nil
    show ?case by simp
  next
    case (Cons p ps)
    have "printable (concat (replicate (i + 1) t))"
      using Cons.prems(1) by (induction i) simp_all
    with Cons.prems have "printable (''|'' @ concat (replicate (i + 1) t) @ '' '' @ p)"
      by (simp add: printable_def)
    with Cons show ?case by (simp add: add_comment_def)
  qed
  have lines: "\<exists>h'. comment_lines h ''  '' 60 xs = Inr h'" if "list_all printable xs" for h xs
    using that
  proof (induction xs arbitrary: h)
    case Nil
    show ?case by simp
  next
    case (Cons x xs)
    from Cons.prems lsp_pieces [of 60 x "[]"] obtain ll where
      ll: "lsp x 60 [] = Inr ll" "list_all printable ll" by auto
    have "printable ''  ''" by (simp add: printable_def)
    from pieces [OF this ll(2), of h 0] obtain h1 where "comment_pieces h ''  '' 0 ll = Inr h1"
      by blast
    with ll(1) Cons.IH [of h1] Cons.prems show ?case by simp
  qed
  have p1: "printable (replicate 70 CHR ''-'')"
    by (simp add: printable_def list_all_iff)
  have p2: "printable ''Original Header''" "printable (''Written by'' @ '' '' @ s_name)"
    by (simp_all add: printable_def s_name_def)
  obtain h0 where h0: "add_comment h (replicate 70 CHR ''-'') = Inr h0"
    using p1 by (simp add: add_comment_def)
  obtain h1 where h1: "add_comment h0 ''Original Header'' = Inr h1"
    using p2(1) by (simp add: add_comment_def)
  from lines [OF assms, of h1] obtain h2 where h2: "comment_lines h1 ''  '' 60 ls = Inr h2"
    by blast
  obtain h3 where h3: "add_comment h2 (''Written by'' @ '' '' @ s_name) = Inr h3"
    using p2(2) by (simp add: add_comment_def)
  have "comments h [(''Original Header'', SLines ls)] = Inr h3"
    using h0 h1 h2 h3 by (simp add: comments_def Let_def)
  with comments_keeps [OF this] show ?thesis by simp
qed

lemma undate_after:
  "map_sum id undate (comments (h\<lparr>hdr_cards := m(''DATE'' \<mapsto> x)\<rparr>) stuff)
     = map_sum id (\<lambda>h'. h'\<lparr>hdr_cards := m(''DATE'' := None)\<rparr>) (comments h stuff)"
  using comments_cards [of "\<lambda>_. m(''DATE'' \<mapsto> x)" h stuff]
  by (simp add: sum.map_comp o_def undate_def id_def)

lemma document_ok:
  assumes "cardval_ok a" and "cardval_ok b" and "cardval_ok c"
  shows "\<exists>h'. document d h [(''REFERENC'', (a, ''ADS Bibcode'')),
                              (''REF_FIGN'', (b, ''Figure Number'')),
                              (''REF_PAGE'', (c, ''Page Number'')),
                              (''CROTAX'', (CFloat r, ''CROTA2 (hidden)''))] = Inr h'
           \<and> hdr_wcs h' = hdr_wcs h
           \<and> hdr_cards h' ''DATE'' = Some (CStr (fits2day d), ''Creation date (apx)'')"
proof -
  have p: "printable ''ADS Bibcode''" "printable ''Figure Number''" "printable ''Page Number''"
    "printable ''CROTA2 (hidden)''" "printable ''Creation date (apx)''"
    by (simp_all add: printable_def)
  show ?thesis
    using assms
    by (simp add: document_def set_card_def vkey_DATE printable_fits2day p)
qed

lemma build_hdr_populated:
  assumes "img_xs img = Some w" and "img_ys img = Some h" and "w \<noteq> 0" and "h \<noteq> 0"
    and "txt_ra r = Some ra" and "txt_dec r = Some dec"
    and "txt_xs r = Some fx" and "txt_ys r = Some fy" and "txt_rt r = Some rot"
    and "txt_bibcode r = Some bib" and "txt_figN r = Some fig" and "txt_page r = Some pg"
    and "txt_txt r = Some ls"
    and "cd2cd (fx / real_of_int w) (fy / real_of_int h) rot ''pc'' = Some pcm"
    and "W = \<lparr>wcs_ctype = [''RA---TAN'', ''DEC--TAN''], wcs_cunit = [''deg'', ''deg''],
              wcs_crpix = [ldpix w, ldpix h], wcs_crval = [ra, dec], wcs_pc = pcm,
              wcs_cdelt = [fx / real_of_int w, fy / real_of_int h]\<rparr>"
  shows "\<not> wcs_ok W \<Longrightarrow> build_hdr wcs_ok today img r = Inl WcsError"
    and "build_hdr wcs_ok today img r = Inr hdr \<Longrightarrow> hdr_wcs hdr = W"
    and "wcs_ok W \<Longrightarrow> cardval_ok (str_or_none bib) \<Longrightarrow> cardval_ok (str_or_none fig)
           \<Longrightarrow> cardval_ok (str_or_none pg) \<Longrightarrow> list_all printable ls
           \<Longrightarrow> \<exists>hdr. build_hdr wcs_ok today img r = Inr hdr \<and> hdr_wcs hdr = W
                  \<and> hdr_cards hdr ''DATE'' = Some (CStr (fits2day today), ''Creation date (apx)'')"
proof -
  let ?docs = "[(''REFERENC'', (str_or_none bib, ''ADS Bibcode'')),
                (''REF_FIGN'', (str_or_none fig, ''Figure Number'')),
                (''REF_PAGE'', (str_or_none pg, ''Page Number'')),
                (''CROTAX'', (CFloat rot, ''CROTA2 (hidden)''))]"
  have b: "build_hdr wcs_ok today img r =
      bindE (to_header wcs_ok W) (\<lambda>hdr. bindE (document today hdr ?docs)
        (\<lambda>hdr'. comments hdr' [(''Original Header'', SLines ls)]))"
    using assms by (simp add: build_hdr_def getkey_def pydiv_def Let_def)
  show "build_hdr wcs_ok today img r = Inl WcsError" if "\<not> wcs_ok W"
    using that by (simp add: b to_header_def)
  show "hdr_wcs hdr = W" if res: "build_hdr wcs_ok today img r = Inr hdr"
  proof (cases "wcs_ok W")
    case False
    with res show ?thesis by (simp add: b to_header_def)
  next
    case True
    let ?h0 = "\<lparr>hdr_wcs = W, hdr_cards = Map.empty, hdr_comments = []\<rparr>"
    show ?thesis
    proof (cases "document today ?h0 ?docs")
      case (Inl e)
      with res True show ?thesis by (simp add: b to_header_def)
    next
      case (Inr h1)
      with res True have "comments h1 [(''Original Header'', SLines ls)] = Inr hdr"
        by (simp add: b to_header_def)
      from comments_keeps [OF this] document_wcs [OF Inr] show ?thesis by simp
    qed
  qed
  show "\<exists>hdr. build_hdr wcs_ok today img r = Inr hdr \<and> hdr_wcs hdr = W
                  \<and> hdr_cards hdr ''DATE'' = Some (CStr (fits2day today), ''Creation date (apx)'')"
    if ok: "wcs_ok W" and cards: "cardval_ok (str_or_none bib)" "cardval_ok (str_or_none fig)"
      "cardval_ok (str_or_none pg)" and lines: "list_all printable ls"
  proof -
    let ?h0 = "\<lparr>hdr_wcs = W, hdr_cards = Map.empty, hdr_comments = []\<rparr>"
    from document_ok [OF cards, of today ?h0 rot] obtain h1 where
      h1: "document today ?h0 ?docs = Inr h1" "hdr_wcs h1 = W"
        "hdr_cards h1 ''DATE'' = Some (CStr (fits2day today), ''Creation date (apx)'')"
      by auto
    from comments_ok [OF lines, of h1] obtain h2 where
      h2: "comments h1 [(''Original Header'', SLines ls)] = Inr h2"
        "hdr_wcs h2 = hdr_wcs h1" "hdr_cards h2 = hdr_cards h1"
      by blast
    show ?thesis
      using ok h1 h2 by (simp add: b to_header_def)
  qed
qed

lemma build_hdr_clock:
  "map_sum id undate (build_hdr wcs_ok t1 img txt)
     = map_sum id undate (build_hdr wcs_ok t2 img txt)"
proof -
  have bindE_if: "bindE (if c then Inr a else Inl e) f = (if c then f a else Inl e)"
    for c and a :: header and e and f :: "header \<Rightarrow> error + header"
    by simp
  show ?thesis
    by (simp add: build_hdr_def Let_def map_sum_bindE cd2cd_pc to_header_def bindE_if
        if_distrib [of "map_sum id undate"] document_bind undate_after
        del: document_loop.simps np_div.simps cong: if_cong)
qed

lemma parse_txt_errors:
  assumes "parse_txt flt lines = Inl e"
  shows "e \<in> {IndexError, ValueError, BareRaise}"
  using assms
  apply (simp add: parse_txt_def Let_def del: split_on.simps split: if_splits)
  apply (auto simp: bindE_def idx_def idx_last_def pyfloat_def
      split: sum.splits option.splits if_splits simp del: split_on.simps)
  done

lemma example_tokens:
  "split_on CHR '' '' (strip (example_report ! 2)) = [''(56.7,'', ''24.15)'']"
  "split_on CHR '' '' (strip (example_report ! 3)) = [''81.4539'', ''x'', ''59.1175'', ''arcminutes'']"
  "split_on CHR '' '' (strip (example_report ! 4)) =
     [''Field'', ''rotation'', ''angle:'', ''up'', ''is'', ''-179.411'', ''degrees'', ''E'', ''of'', ''N'']"
  by (simp_all add: example_report_def strip_def strip_by_def is_space_def)

lemma read_decimal_examples:
  "read_decimal ''56.7'' = Some (567 / 10)"
  "read_decimal ''24.15'' = Some (483 / 20)"
  "read_decimal ''81.4539'' = Some (814539 / 10000)"
  "read_decimal ''59.1175'' = Some (591175 / 10000)"
  "read_decimal ''-179.411'' = Some (- (179411 / 1000))"
  "read_decimal ''abc'' = None"
  by (simp_all add: read_decimal_def read_unsigned_def digit_val_def)

lemma pad_numeral:
  "pad (numeral k) n = pad (pred_numeral k) (n div 10) @ [''0123456789'' ! (n mod 10)]"
  by (simp only: numeral_eq_Suc [of k] pad.simps)

lemma fits2day_examples:
  "fits2day example_clock = ''2013-11-04T12:34:56''"
  "fits2day example_clock_later = ''2013-11-04T12:34:56''"
  "fits2day example_clock_next_day = ''2013-11-05T12:34:56''"
  by (simp_all add: fits2day_def str_datetime_def example_clock_def example_clock_later_def
      example_clock_next_day_def pad_numeral strip_by_def split_ws_def is_space_def)

lemma example_printable:
  "list_all printable example_report"
  "cardval_ok (str_or_none (Some ''2010Ciel...72..113N''))"
  "cardval_ok (str_or_none (Some ''002''))"
  by (simp_all add: example_report_def printable_def str_or_none_def)

lemma example_builds:
  "\<exists>hdr. build_hdr wcs_valid d example_image (example_record\<lparr>txt_solved := b\<rparr>) = Inr hdr
     \<and> wcs_crpix (hdr_wcs hdr) = [500, 400]
     \<and> hdr_cards hdr ''DATE'' = Some (CStr (fits2day d), ''Creation date (apx)'')"
proof -
  let ?c1 = "814539 / 10000 / 60 / real_of_int 1000"
  let ?c2 = "591175 / 10000 / 60 / real_of_int 800"
  let ?rot = "- (179411 / 1000) :: real"
  let ?pcm = "[[np_div (Finite (?c1 * cos (radians ?rot))) ?c1,
                np_div (Finite (?c1 * sin (radians ?rot))) ?c1],
               [np_div (Finite (- ?c2 * sin (radians ?rot))) ?c2,
                np_div (Finite (?c2 * cos (radians ?rot))) ?c2]]"
  let ?W = "\<lparr>wcs_ctype = [''RA---TAN'', ''DEC--TAN''], wcs_cunit = [''deg'', ''deg''],
              wcs_crpix = [ldpix 1000, ldpix 800], wcs_crval = [567 / 10, 483 / 20],
              wcs_pc = ?pcm, wcs_cdelt = [?c1, ?c2]\<rparr>"
  have ok: "wcs_valid ?W" by (simp add: wcs_valid_def)
  have "\<exists>hdr. build_hdr wcs_valid d example_image (example_record\<lparr>txt_solved := b\<rparr>) = Inr hdr
      \<and> hdr_wcs hdr = ?W
      \<and> hdr_cards hdr ''DATE'' = Some (CStr (fits2day d), ''Creation date (apx)'')"
    by (rule build_hdr_populated(3) [where img = example_image and w = 1000 and h = 800
          and r = "example_record\<lparr>txt_solved := b\<rparr>"
          and ra = "567 / 10" and dec = "483 / 20"
          and fx = "814539 / 10000 / 60" and fy = "591175 / 10000 / 60"
          and ls = example_report
          and bib = "Some ''2010Ciel...72..113N''" and fig = "Some ''002''" and pg = "Some ''002''"
          and pcm = ?pcm and rot = ?rot and W = ?W and wcs_ok = wcs_valid and today = d,
          OF _ _ _ _ _ _ _ _ _ _ _ _ _ cd2cd_pc refl ok])
      (simp_all add: example_image_def example_record_def example_printable)
  then show ?thesis by (auto simp: ldpix_def)
qed

section \<open>The claims\<close>

text \<open>
  C1. In direct form (\<open>ret = ''cd''\<close>) the matrix derivation returns, for every scale
  pair \<open>(sx, sy)\<close> and every angle \<open>th\<close> in degrees, the matrix with entries
  \<open>sx * cos r\<close>, \<open>sx * sin r\<close>, \<open>- sy * sin r\<close>, \<open>sy * cos r\<close>, where \<open>r\<close> is \<open>th\<close>
  in radians.
\<close>

theorem cd2cd_direct_form:
  "\<exists>M. cd2cd sx sy th ''cd'' = Some M
     \<and> M ! 0 ! 0 = Finite (sx * cos (th * pi / 180))
     \<and> M ! 0 ! 1 = Finite (sx * sin (th * pi / 180))
     \<and> M ! 1 ! 0 = Finite (- sy * sin (th * pi / 180))
     \<and> M ! 1 ! 1 = Finite (sy * cos (th * pi / 180))
     \<and> length M = 2 \<and> length (M ! 0) = 2 \<and> length (M ! 1) = 2"
  by (simp add: cd2cd_cd radians_def)

text \<open>
  C2, amended. The parser cuts a line at every single space, so two spaces in a row
  give an empty token. A report of five lines whose tokens, cut that way, all read
  (right ascension and declination on line 3, width and height on line 4, the angle on
  line 5) and whose unit, the token of index 3 of line 4, is \<open>arcseconds\<close>,
  \<open>arcminutes\<close> or \<open>degrees\<close> is parsed into a solved record whose \<^verbatim>\<open>xs\<close> and
  \<^verbatim>\<open>ys\<close> are the width and the height read from line 4 divided by 3600, 60 or 1:
  both are in degrees.
\<close>

theorem parse_txt_field_size:
  assumes "length lines = 5"
    and "split_on CHR '' '' (strip (lines ! 2)) = a # b # rest"
    and "flt (butlast (drop 1 a)) = Some ra"
    and "flt (butlast b) = Some dec"
    and "toks = split_on CHR '' '' (strip (lines ! 3))"
    and "3 < length toks"
    and "flt (toks ! 0) = Some width"
    and "flt (toks ! 2) = Some height"
    and "(toks ! 3, factor) \<in> {(''arcseconds'', 3600), (''arcminutes'', 60), (''degrees'', 1)}"
    and "5 < length (split_on CHR '' '' (strip (lines ! 4)))"
    and "flt (split_on CHR '' '' (strip (lines ! 4)) ! 5) = Some rot"
  shows "\<exists>r. parse_txt flt lines = Inr r \<and> txt_solved r
           \<and> txt_xs r = Some (width / factor) \<and> txt_ys r = Some (height / factor)"
proof -
  from assms(9) have "map_of u (toks ! 3) = Some factor"
    by (auto simp: u_def)
  from parse_txt_valid [OF assms(1-8) this assms(10,11)] show ?thesis
    by (simp add: Let_def)
qed

theorem parse_txt_field_size_witness:
  "\<exists>r. parse_txt read_decimal example_report = Inr r \<and> txt_solved r
      \<and> txt_xs r = Some (814539 / 10000 / 60) \<and> txt_ys r = Some (591175 / 10000 / 60)"
proof (rule parse_txt_field_size [where a = "''(56.7,''" and b = "''24.15)''" and rest = "[]"
      and ra = "567 / 10" and dec = "483 / 20"
      and toks = "[''81.4539'', ''x'', ''59.1175'', ''arcminutes'']"
      and rot = "- (179411 / 1000)"])
  show "length example_report = 5" by (simp add: example_report_def)
qed (simp_all add: example_tokens read_decimal_examples)

text \<open>
  As stated, with the unit as the fourth whitespace token of line 4, the claim fails:
  with two spaces before \<open>arcminutes\<close> the fourth whitespace token is in the table and
  the numbers read, but the parser finds the empty token at index 3 and raises.
\<close>

theorem parse_txt_field_size_counterexample:
  "length double_space_report = 5
     \<and> split_ws (double_space_report ! 3) = [''81.4539'', ''x'', ''59.1175'', ''arcminutes'']
     \<and> map_of u ''arcminutes'' = Some 60
     \<and> parse_txt read_decimal double_space_report = Inl BareRaise"
  by (simp add: double_space_report_def parse_txt_def strip_def strip_by_def is_space_def
      split_ws_def idx_def idx_last_def pyfloat_def read_decimal_examples u_def Let_def)

text \<open>
  C3. For positive scales, the normalized form (\<open>ret = ''pc''\<close>) together with the scale
  pair reconstructs the direct form: multiplying row \<open>i\<close> of \<open>P\<close> by the scale of axis
  \<open>i\<close> gives the matrix returned for \<open>ret = ''cd''\<close>. Floats are real numbers here, so
  the round trip is exact.
\<close>

theorem cd2cd_round_trip:
  assumes "0 < sx" and "0 < sy"
  shows "\<exists>P M. cd2cd sx sy th ''pc'' = Some P \<and> cd2cd sx sy th ''cd'' = Some M
           \<and> reconstruct P sx sy = M"
  using assms by (simp add: cd2cd_cd cd2cd_pc reconstruct_def)

theorem cd2cd_round_trip_witness:
  "(0::real) < 2 \<and> (0::real) < 3
     \<and> (\<exists>P M. cd2cd 2 3 0 ''pc'' = Some P \<and> cd2cd 2 3 0 ''cd'' = Some M
           \<and> reconstruct P 2 3 = M)"
  using cd2cd_round_trip [of 2 3 0] by simp

text \<open>
  C4, amended. A report of five lines whose unit token is not in the table is never
  parsed into a record: \<^verbatim>\<open>parse_txt\<close> raises. The exception is the one of the unit
  check (line 119) when the tokens read before it, the coordinates of line 3 and the
  width and height of line 4, are there and read as floats; otherwise the earlier step
  has raised first, with ValueError or IndexError.
\<close>

theorem parse_txt_unknown_unit:
  assumes "length lines = 5"
    and "toks = split_on CHR '' '' (strip (lines ! 3))"
    and "3 < length toks"
    and "toks ! 3 \<notin> {''arcseconds'', ''arcminutes'', ''degrees''}"
  shows "(\<exists>e. parse_txt flt lines = Inl e)
     \<and> ((\<exists>a b rest ra dec width height.
            split_on CHR '' '' (strip (lines ! 2)) = a # b # rest
            \<and> flt (butlast (drop 1 a)) = Some ra \<and> flt (butlast b) = Some dec
            \<and> flt (toks ! 0) = Some width \<and> flt (toks ! 2) = Some height)
          \<longrightarrow> parse_txt flt lines = Inl BareRaise)
     \<and> parse_txt flt lines \<in> {Inl BareRaise, Inl ValueError, Inl IndexError}"
proof -
  have none: "map_of u (toks ! 3) = None"
    using assms(4) by (simp add: u_def)
  have err: "\<exists>e. parse_txt flt lines = Inl e"
  proof (cases "parse_txt flt lines")
    case (Inl e)
    then show ?thesis by blast
  next
    case (Inr r)
    from parse_txt_Inr_unit [OF Inr] assms(1) obtain us where
      "idx (split_on CHR '' '' (strip (lines ! 3))) 3 = Inr us" "map_of u us \<noteq> None"
      by auto
    with assms(2,3) none show ?thesis by (simp add: idx_def)
  qed
  moreover have "parse_txt flt lines = Inl BareRaise"
    if "split_on CHR '' '' (strip (lines ! 2)) = a # b # rest"
      and "flt (butlast (drop 1 a)) = Some ra" and "flt (butlast b) = Some dec"
      and "flt (toks ! 0) = Some width" and "flt (toks ! 2) = Some height"
    for a b rest ra dec width height
    using that assms(1,2,3) none
    by (simp add: parse_txt_def idx_in_range idx_last_split_on idx_split_on_0 pyfloat_def
        Let_def del: split_on.simps)
  moreover have "parse_txt flt lines \<in> {Inl BareRaise, Inl ValueError, Inl IndexError}"
    using err parse_txt_errors [of flt lines] by auto
  ultimately show ?thesis by blast
qed

theorem parse_txt_unknown_unit_witness:
  "(\<exists>e. parse_txt read_decimal parsec_report = Inl e)
     \<and> parse_txt read_decimal parsec_report = Inl BareRaise"
proof -
  have t2: "split_on CHR '' '' (strip (parsec_report ! 2)) = [''(56.7,'', ''24.15)'']"
    and t3: "split_on CHR '' '' (strip (parsec_report ! 3)) = [''81.4539'', ''x'', ''59.1175'', ''parsecs'']"
    by (simp_all add: parsec_report_def strip_def strip_by_def is_space_def)
  have len: "length parsec_report = 5" by (simp add: parsec_report_def)
  have unit: "[''81.4539'', ''x'', ''59.1175'', ''parsecs''] ! 3
      \<notin> {''arcseconds'', ''arcminutes'', ''degrees''}"
    by simp
  have earlier: "\<exists>a b rest ra dec width height.
       split_on CHR '' '' (strip (parsec_report ! 2)) = a # b # rest
       \<and> read_decimal (butlast (drop 1 a)) = Some ra \<and> read_decimal (butlast b) = Some dec
       \<and> read_decimal ([''81.4539'', ''x'', ''59.1175'', ''parsecs''] ! 0) = Some width
       \<and> read_decimal ([''81.4539'', ''x'', ''59.1175'', ''parsecs''] ! 2) = Some height"
  proof -
    have "read_decimal (butlast (drop 1 ''(56.7,'')) = Some (567 / 10)"
      and "read_decimal (butlast ''24.15)'') = Some (483 / 20)"
      and "read_decimal ([''81.4539'', ''x'', ''59.1175'', ''parsecs''] ! 0) = Some (814539 / 10000)"
      and "read_decimal ([''81.4539'', ''x'', ''59.1175'', ''parsecs''] ! 2) = Some (591175 / 10000)"
      by (simp_all add: read_decimal_examples)
    with t2 show ?thesis by blast
  qed
  from parse_txt_unknown_unit [OF len t3 [symmetric] _ unit, of read_decimal] earlier
  show ?thesis
    by simp
qed

text \<open>
  As stated the claim fails: with an unknown unit and a right ascension that is not a
  number, the exception is the ValueError of \<^verbatim>\<open>float\<close> at line 112, not the one of
  the unit check.
\<close>

theorem parse_txt_unknown_unit_counterexample:
  "length malformed_report = 5
     \<and> map_of u (split_on CHR '' '' (strip (malformed_report ! 3)) ! 3) = None
     \<and> parse_txt read_decimal malformed_report = Inl ValueError
     \<and> parse_txt read_decimal malformed_report \<noteq> Inl BareRaise"
  by (simp add: malformed_report_def parse_txt_def strip_def strip_by_def is_space_def
      idx_def idx_last_def pyfloat_def read_decimal_examples u_def Let_def)

text \<open>
  C5. A report of exactly three lines is parsed into \<^verbatim>\<open>{"solved": False}\<close>, a record
  with no other key, whatever the lines hold and whatever \<^verbatim>\<open>float\<close> would do on
  them: nothing of the lines is read.
\<close>

theorem parse_txt_unsolved:
  assumes "length lines = 3"
  shows "parse_txt flt lines =
     Inr \<lparr>txt_solved = False, txt_ra = None, txt_dec = None, txt_inverted = None,
          txt_bibcode = None, txt_figN = None, txt_page = None,
          txt_xs = None, txt_ys = None, txt_rt = None, txt_txt = None\<rparr>"
  using assms by (simp add: parse_txt_def unsolved_def)

theorem parse_txt_unsolved_witness:
  "parse_txt read_decimal [''testing image: 2010Ciel...72..113N-002-002.ppm'', ''did not solve'', '''']
     = Inr \<lparr>txt_solved = False, txt_ra = None, txt_dec = None, txt_inverted = None,
          txt_bibcode = None, txt_figN = None, txt_page = None,
          txt_xs = None, txt_ys = None, txt_rt = None, txt_txt = None\<rparr>"
  by (rule parse_txt_unsolved) simp



text \<open>
  C7, amended. The builder never reads \<^verbatim>\<open>solved\<close>: changing it changes nothing. On
  the record that the parser returns for an unsolved report, \<^verbatim>\<open>{"solved": False}\<close>,
  it raises KeyError for every image and every clock: on \<^verbatim>\<open>ra\<close>, the first key of
  the record it looks up, when the image has its two sizes. The caller \<^verbatim>\<open>run\<close> does
  not call it for that record.
\<close>

theorem build_hdr_unsolved:
  "build_hdr wcs_ok today img unsolved =
     (case img_xs img of
        None \<Rightarrow> Inl (KeyError ''xs'')
      | Some w \<Rightarrow> (case img_ys img of
                     None \<Rightarrow> Inl (KeyError ''ys'')
                   | Some h \<Rightarrow> Inl (KeyError ''ra'')))
   \<and> run_hdr wcs_ok today img unsolved = Inr None
   \<and> build_hdr wcs_ok today img (r\<lparr>txt_solved := b\<rparr>) = build_hdr wcs_ok today img r"
proof (intro conjI)
  show "build_hdr wcs_ok today img unsolved =
     (case img_xs img of
        None \<Rightarrow> Inl (KeyError ''xs'')
      | Some w \<Rightarrow> (case img_ys img of
                     None \<Rightarrow> Inl (KeyError ''ys'')
                   | Some h \<Rightarrow> Inl (KeyError ''ra'')))"
    by (simp add: build_hdr_def unsolved_def getkey_def split: option.splits)
  show "run_hdr wcs_ok today img unsolved = Inr None"
    by (simp add: run_hdr_def unsolved_def)
  show "build_hdr wcs_ok today img (r\<lparr>txt_solved := b\<rparr>) = build_hdr wcs_ok today img r"
    by (simp add: build_hdr_def cd2cd_pc Let_def del: np_div.simps)
qed

text \<open>
  As stated the claim fails: on a record with \<^verbatim>\<open>solved\<close> false and every other key
  present the builder raises nothing and returns a header.
\<close>

theorem build_hdr_unsolved_counterexample:
  "\<not> txt_solved unsolved_full
     \<and> \<not> isl (build_hdr wcs_valid example_clock example_image unsolved_full)"
  using example_builds [of example_clock False]
  by (auto simp: unsolved_full_def)

text \<open>
  C8. When the width or the height of the image is zero, the builder, given a record
  with the coordinates and field sizes of a solved report, raises: the division of the
  field size by the pixel size at line 196 is a division of Python numbers, which raises
  ZeroDivisionError, so no infinite or nan scale is ever stored.
\<close>

theorem build_hdr_zero_dimension:
  assumes "img_xs img = Some w" and "img_ys img = Some h" and "w = 0 \<or> h = 0"
    and "txt_ra txt = Some ra" and "txt_dec txt = Some dec"
    and "txt_xs txt = Some fx" and "txt_ys txt = Some fy"
  shows "build_hdr wcs_ok today img txt = Inl ZeroDivisionError"
  using assms by (auto simp: build_hdr_def getkey_def pydiv_def)

theorem build_hdr_zero_dimension_witness:
  "build_hdr wcs_valid example_clock \<lparr>img_xs = Some 0, img_ys = Some 800\<rparr> example_record
     = Inl ZeroDivisionError"
  using build_hdr_zero_dimension [of "\<lparr>img_xs = Some 0, img_ys = Some 800\<rparr>" 0 800
      example_record "567 / 10" "483 / 20" "814539 / 10000 / 60" "591175 / 10000 / 60"
      wcs_valid example_clock]
  by (simp add: example_record_def)

text \<open>
  C9, amended. The builder reads the clock: \<^verbatim>\<open>document\<close> adds a \<^verbatim>\<open>DATE\<close> card
  holding \<^verbatim>\<open>fits2day()\<close>. Two calls on equal image and record return the same error
  or headers that differ in the \<^verbatim>\<open>DATE\<close> card at most, and the same result when the
  clock reads the same second.
\<close>

theorem build_hdr_clock_only:
  "map_sum id undate (build_hdr wcs_ok t1 img txt) = map_sum id undate (build_hdr wcs_ok t2 img txt)
     \<and> (fits2day t1 = fits2day t2 \<longrightarrow> build_hdr wcs_ok t1 img txt = build_hdr wcs_ok t2 img txt)"
proof -
  have "build_hdr wcs_ok t1 img txt = build_hdr wcs_ok t2 img txt"
    if eq: "fits2day t1 = fits2day t2"
  proof -
    have d: "document t1 = document t2"
      by (intro ext) (simp add: document_def eq)
    show ?thesis unfolding build_hdr_def d by (rule refl)
  qed
  with build_hdr_clock [of wcs_ok t1 img "txt" t2] show ?thesis by blast
qed

theorem build_hdr_clock_only_witness:
  "map_sum id undate (build_hdr wcs_valid example_clock example_image example_record)
      = map_sum id undate (build_hdr wcs_valid example_clock_later example_image example_record)
     \<and> build_hdr wcs_valid example_clock example_image example_record
      = build_hdr wcs_valid example_clock_later example_image example_record"
  using build_hdr_clock_only [of wcs_valid example_clock example_image example_record
      example_clock_later]
  by (simp add: fits2day_examples)

text \<open>
  As stated the claim fails: the same image and record give two different headers on
  two different days.
\<close>

theorem build_hdr_clock_counterexample:
  "build_hdr wcs_valid example_clock example_image example_record
     \<noteq> build_hdr wcs_valid example_clock_next_day example_image example_record"
proof -
  have r: "example_record\<lparr>txt_solved := True\<rparr> = example_record"
    by (simp add: example_record_def)
  from example_builds [of example_clock True] obtain h1 where
    h1: "build_hdr wcs_valid example_clock example_image example_record = Inr h1"
      "hdr_cards h1 ''DATE'' = Some (CStr (fits2day example_clock), ''Creation date (apx)'')"
    by (auto simp: r)
  from example_builds [of example_clock_next_day True] obtain h2 where
    h2: "build_hdr wcs_valid example_clock_next_day example_image example_record = Inr h2"
      "hdr_cards h2 ''DATE'' = Some (CStr (fits2day example_clock_next_day), ''Creation date (apx)'')"
    by (auto simp: r)
  have "hdr_cards h1 ''DATE'' \<noteq> hdr_cards h2 ''DATE''"
    by (simp add: h1(2) h2(2) fits2day_examples)
  then have "h1 \<noteq> h2" by auto
  then show ?thesis by (simp add: h1(1) h2(1))
qed

text \<open>
  C10. For a representation selector other than \<open>''cd''\<close> and \<open>''pc''\<close> the matrix
  derivation returns \<^verbatim>\<open>None\<close> and raises nothing, whatever the other arguments.
\<close>

theorem cd2cd_other_selector:
  assumes "ret \<noteq> ''cd''" and "ret \<noteq> ''pc''"
  shows "cd2cd cdelt1 cdelt2 crota2 ret = None"
  using assms by (simp add: cd2cd_def Let_def)

theorem cd2cd_other_selector_witness:
  "''xy'' \<noteq> ''cd'' \<and> ''xy'' \<noteq> ''pc'' \<and> cd2cd 0 0 45 ''xy'' = None"
  using cd2cd_other_selector [of "''xy''" 0 0 45] by simp

end
